theory Spec2Isabelle
  imports Main "HOL-Library.Word"
begin

section \<open>Values exchanged with the operating system and the network\<close>

text \<open>
  The library is a thin client: every interesting step is a call into the Go standard
  library (\<^verbatim>\<open>os\<close>, \<^verbatim>\<open>io\<close>, \<^verbatim>\<open>mime/multipart\<close>, \<^verbatim>\<open>net/http\<close>, \<^verbatim>\<open>encoding/json\<close>).
  Those calls are modelled by an environment record \<open>Env\<close> that answers each of them;
  the functions of the repository are translated over it. Strings and byte slices are
  \<open>char list\<close>.

  The sources hold two revisions of the client. The first is \<^verbatim>\<open>src/api.go\<close> (package
  \<^verbatim>\<open>main\<close>), repeated word for word as the first text of \<^verbatim>\<open>src/client/api.go\<close>: one
  \<^verbatim>\<open>multipart.Writer\<close> is threaded through the mutually recursive functions
  \<^verbatim>\<open>createMultiPartBody\<close> and \<^verbatim>\<open>createDirectoryMultiPartBody\<close>, which return the boundary
  as a string. The second, the last text of \<^verbatim>\<open>src/client/api.go\<close>, rewrites both as methods
  of \<^verbatim>\<open>Client\<close> that build the whole request, and adds \<^verbatim>\<open>AddBinary\<close>. \<^verbatim>\<open>Cat\<close>,
  \<^verbatim>\<open>readIPFSResponse\<close> and the constructors are the same in both. Names of the first
  revision that the second reuses carry the suffix \<open>_legacy\<close> or, for the two functions that
  became methods, stay plain while the methods are prefixed \<open>Client_\<close>.
\<close>

type_synonym bytes = string

text \<open>An \<^verbatim>\<open>error\<close> value, tagged by the package that produced it.\<close>

datatype go_error = IOError string | InvalidURL string | NetworkError string

text \<open>An \<^verbatim>\<open>fs.DirEntry\<close>, as far as the code looks at it: \<^verbatim>\<open>Name()\<close> and \<^verbatim>\<open>IsDir()\<close>.\<close>

record DirEntry =
  entry_Name :: string
  entry_IsDir :: bool

text \<open>
  An \<^verbatim>\<open>io.Reader\<close> read to its end: the bytes it delivers, and the error (other than
  \<^verbatim>\<open>io.EOF\<close>) that ends the reading, if any.
\<close>

record Reader =
  rd_data :: bytes
  rd_err :: "go_error option"

text \<open>
  The \<^verbatim>\<open>bytes.Buffer\<close> under a \<^verbatim>\<open>multipart.Writer\<close>, at the granularity of the writes
  the writer makes: the delimiter line and headers that open a part (boundary, field name,
  file name), bytes of the current part, and the closing delimiter.
\<close>

datatype chunk =
  PartHeader string string string
| PartData bytes
| Closing string

record Writer =
  w_boundary :: string
  w_buf :: "chunk list"

record Request =
  req_Method :: string
  req_URL :: string
  req_Header :: "(string \<times> string) list"
  req_Body :: "chunk list option"

record Response =
  resp_StatusCode :: nat
  resp_Body :: Reader

record IPFSResponse =
  Name :: string
  Hash :: string
  Size :: string

record Env =
  fs_stat :: "string \<Rightarrow> string + bool"
  fs_readdir :: "string \<Rightarrow> string + DirEntry list"
  fs_open :: "string \<Rightarrow> string + Reader"
  url_parse :: "string \<Rightarrow> string option"
  net_do :: "Request \<Rightarrow> string + Response"
  json_decode :: "bytes \<Rightarrow> IPFSResponse \<Rightarrow> IPFSResponse \<times> string option"
  rand_boundary :: string

text \<open>What a call does to the outside world, in order.\<close>

datatype event = HttpDo Request | BodyReadAll | BodyClose

section \<open>The standard-library calls the code makes\<close>

definition os_Stat :: "Env \<Rightarrow> string \<Rightarrow> go_error + bool" where
  \<comment> \<open>\<^verbatim>\<open>os.Stat\<close>; of the \<^verbatim>\<open>FileInfo\<close> only \<^verbatim>\<open>IsDir()\<close> is used.\<close>
  "os_Stat env p = (case fs_stat env p of Inl m \<Rightarrow> Inl (IOError m) | Inr d \<Rightarrow> Inr d)"

definition os_ReadDir :: "Env \<Rightarrow> string \<Rightarrow> go_error + DirEntry list" where
  "os_ReadDir env p = (case fs_readdir env p of Inl m \<Rightarrow> Inl (IOError m) | Inr es \<Rightarrow> Inr es)"

definition os_Open :: "Env \<Rightarrow> string \<Rightarrow> go_error + Reader" where
  "os_Open env p = (case fs_open env p of Inl m \<Rightarrow> Inl (IOError m) | Inr f \<Rightarrow> Inr f)"

definition path_Base :: "string \<Rightarrow> string" where
  \<comment> \<open>\<^verbatim>\<open>path.Base\<close>: the last element of the path, trailing slashes removed.\<close>
  "path_Base p =
     (if p = [] then ''.''
      else let q = rev (dropWhile (\<lambda>c. c = CHR ''/'') (rev p));
               r = rev (takeWhile (\<lambda>c. c \<noteq> CHR ''/'') (rev q))
           in if r = [] then ''/'' else r)"

definition NewWriter :: "Env \<Rightarrow> Writer" where
  \<comment> \<open>\<^verbatim>\<open>multipart.NewWriter\<close> on a fresh buffer: a random boundary, nothing written.\<close>
  "NewWriter env = \<lparr>w_boundary = rand_boundary env, w_buf = []\<rparr>"

definition Boundary :: "Writer \<Rightarrow> string" where
  "Boundary w = w_boundary w"

definition escapeQuotes :: "string \<Rightarrow> string" where
  \<comment> \<open>\<^verbatim>\<open>mime/multipart\<close>'s \<^verbatim>\<open>escapeQuotes\<close>, a byte-wise replacer: backslash and double
      quote get a backslash in front, CR and LF are percent-encoded.\<close>
  "escapeQuotes s =
     concat (map (\<lambda>c. if c = CHR 0x5C then [CHR 0x5C, CHR 0x5C]
                       else if c = CHR 0x22 then [CHR 0x5C, CHR 0x22]
                       else if c = CHR 0x0D then ''%0D''
                       else if c = CHR 0x0A then ''%0A''
                       else [c]) s)"

definition CreateFormFile :: "Writer \<Rightarrow> string \<Rightarrow> string \<Rightarrow> Writer" where
  \<comment> \<open>The header line is
      \<^verbatim>\<open>Content-Disposition: form-data; name="..."; filename="..."\<close> with both names
      passed through \<^verbatim>\<open>escapeQuotes\<close>; the chunk keeps them as they are written.
      Writing to a \<^verbatim>\<open>bytes.Buffer\<close> never returns an error, so neither does this call.\<close>
  "CreateFormFile w fieldname filename =
     w\<lparr>w_buf := w_buf w @
        [PartHeader (w_boundary w) (escapeQuotes fieldname) (escapeQuotes filename)]\<rparr>"

definition io_Copy :: "Writer \<Rightarrow> Reader \<Rightarrow> Writer \<times> go_error option" where
  \<comment> \<open>\<^verbatim>\<open>io.Copy\<close> into the part last created: what was read is written, then the
      reader's error, if any, is returned.\<close>
  "io_Copy w src = (w\<lparr>w_buf := w_buf w @ [PartData (rd_data src)]\<rparr>, rd_err src)"

definition Close :: "Writer \<Rightarrow> Writer" where
  \<comment> \<open>\<^verbatim>\<open>Writer.Close\<close>: the closing delimiter.\<close>
  "Close w = w\<lparr>w_buf := w_buf w @ [Closing (w_boundary w)]\<rparr>"

definition http_NewRequest ::
  "Env \<Rightarrow> string \<Rightarrow> string \<Rightarrow> chunk list option \<Rightarrow> go_error + Request" where
  \<comment> \<open>\<^verbatim>\<open>http.NewRequest\<close> with a valid method fails exactly when the URL does not parse.\<close>
  "http_NewRequest env method u body =
     (case url_parse env u of
        Some m \<Rightarrow> Inl (InvalidURL m)
      | None \<Rightarrow> Inr \<lparr>req_Method = method, req_URL = u, req_Header = [], req_Body = body\<rparr>)"

definition Header_Set :: "Request \<Rightarrow> string \<Rightarrow> string \<Rightarrow> Request" where
  "Header_Set req k v =
     req\<lparr>req_Header := (k, v) # filter (\<lambda>kv. fst kv \<noteq> k) (req_Header req)\<rparr>"

definition httpClient_Do :: "Env \<Rightarrow> Request \<Rightarrow> go_error + Response" where
  "httpClient_Do env req =
     (case net_do env req of Inl m \<Rightarrow> Inl (NetworkError m) | Inr resp \<Rightarrow> Inr resp)"

definition json_Unmarshal :: "Env \<Rightarrow> bytes \<Rightarrow> IPFSResponse \<Rightarrow> IPFSResponse \<times> string option" where
  \<comment> \<open>\<^verbatim>\<open>json.Unmarshal(data, ret)\<close>: the struct as the decoder leaves it, and its verdict.\<close>
  "json_Unmarshal env data ret = json_decode env data ret"

section \<open>Reading multipart buffers\<close>

record part =
  part_field :: string
  part_filename :: string
  part_content :: bytes

text \<open>
  The parts opened in the buffer: a header opens a part, data belongs to the part last
  opened (the writer accepts data for no other), the closing delimiter adds nothing. A
  last part that no closing delimiter follows counts as a part; \<open>delimiters\<close> tells
  whether one follows. Field and file name are kept as the header holds them, escaped.
\<close>

fun add_chunk :: "part list \<Rightarrow> chunk \<Rightarrow> part list" where
  "add_chunk ps (PartHeader b f n) =
     ps @ [\<lparr>part_field = f, part_filename = n, part_content = []\<rparr>]"
| "add_chunk ps (PartData d) =
     (case rev ps of
        [] \<Rightarrow> []
      | p # qs \<Rightarrow> rev qs @ [p\<lparr>part_content := part_content p @ d\<rparr>])"
| "add_chunk ps (Closing b) = ps"

definition parts_of :: "chunk list \<Rightarrow> part list" where
  "parts_of cs = foldl add_chunk [] cs"

fun chunk_boundary :: "chunk \<Rightarrow> string list" where
  "chunk_boundary (PartHeader b f n) = [b]"
| "chunk_boundary (PartData d) = []"
| "chunk_boundary (Closing b) = [b]"

definition delimiters :: "chunk list \<Rightarrow> string list" where
  \<comment> \<open>The boundary of every delimiter line written to the buffer.\<close>
  "delimiters cs = concat (map chunk_boundary cs)"

definition header_boundary :: "Request \<Rightarrow> string option" where
  \<comment> \<open>The boundary parameter of the request's \<^verbatim>\<open>Content-Type\<close> header.\<close>
  "header_boundary req =
     (case map_of (req_Header req) ''Content-Type'' of
        None \<Rightarrow> None
      | Some v \<Rightarrow>
          if take 30 v = ''multipart/form-data; boundary='' then Some (drop 30 v) else None)"

definition part_names :: "chunk list \<Rightarrow> (string \<times> string) list" where
  \<comment> \<open>Field name and file name of every part, in the order of the buffer.\<close>
  "part_names cs = map (\<lambda>q. (part_field q, part_filename q)) (parts_of cs)"

definition body_parts :: "Request \<Rightarrow> part list" where
  "body_parts req = (case req_Body req of None \<Rightarrow> [] | Some cs \<Rightarrow> parts_of cs)"

definition body_names :: "Request \<Rightarrow> (string \<times> string) list" where
  "body_names req = (case req_Body req of None \<Rightarrow> [] | Some cs \<Rightarrow> part_names cs)"

definition body_delimiters :: "Request \<Rightarrow> string list" where
  "body_delimiters req = (case req_Body req of None \<Rightarrow> [] | Some cs \<Rightarrow> delimiters cs)"

definition sent_requests :: "event list \<Rightarrow> Request list" where
  \<comment> \<open>The requests handed to \<^verbatim>\<open>httpClient.Do\<close>, in order.\<close>
  "sent_requests evs = concat (map (\<lambda>e. case e of HttpDo r \<Rightarrow> [r] | _ \<Rightarrow> []) evs)"

section \<open>The client (all revisions)\<close>

definition apiPath :: string where
  "apiPath = ''/api/v0/''"

definition apiEndpoint :: "string \<Rightarrow> string" where
  \<comment> \<open>The package-level map; a missing key reads as the empty string.\<close>
  "apiEndpoint k =
     (if k = ''add'' then apiPath @ ''add''
      else if k = ''cat'' then apiPath @ ''cat''
      else [])"

text \<open>
  Of the \<^verbatim>\<open>http.Client\<close> the record keeps the \<^verbatim>\<open>Timeout\<close>, a \<^verbatim>\<open>time.Duration\<close>: a signed
  64-bit count of nanoseconds. \<^verbatim>\<open>time.Duration(timeout) * time.Second\<close> is computed in that
  type and wraps around.
\<close>

record Client =
  base :: string
  httpClient :: "64 word"
  url :: string

definition time_Second :: "64 word" where
  "time_Second = 1000000000"

definition NewIPFSApi :: "Env \<Rightarrow> string \<Rightarrow> int \<Rightarrow> go_error + Client" where
  "NewIPFSApi env Url timeout =
     (case url_parse env Url of
        Some m \<Rightarrow> Inl (InvalidURL m)
      | None \<Rightarrow> Inr \<lparr>base = Url, httpClient = word_of_int timeout * time_Second, url = Url\<rparr>)"

definition NewLocalApi :: "Env \<Rightarrow> go_error + Client" where
  "NewLocalApi env = NewIPFSApi env ''http://127.0.0.1:5001'' 4"

definition emptyResponse :: IPFSResponse where
  \<comment> \<open>\<^verbatim>\<open>new(IPFSResponse)\<close>: every field the empty string.\<close>
  "emptyResponse = \<lparr>Name = [], Hash = [], Size = []\<rparr>"

definition readIPFSResponse :: "Env \<Rightarrow> Response \<Rightarrow> IPFSResponse option \<times> event list" where
  \<comment> \<open>The deferred \<^verbatim>\<open>resp.Body.Close()\<close> runs on both returns.\<close>
  "readIPFSResponse env resp =
     (let ret = emptyResponse in
      case rd_err (resp_Body resp) of
        Some err \<Rightarrow> (None, [BodyReadAll, BodyClose])
      | None \<Rightarrow>
          (Some (fst (json_Unmarshal env (rd_data (resp_Body resp)) ret)),
           [BodyReadAll, BodyClose]))"

definition Cat :: "Env \<Rightarrow> Client \<Rightarrow> string \<Rightarrow> (Response option \<times> go_error option) \<times> event list" where
  \<comment> \<open>With an error, \<^verbatim>\<open>Do\<close> hands back a nil response, which \<^verbatim>\<open>Cat\<close> passes on.\<close>
  "Cat env client ident =
     (case http_NewRequest env ''POST'' (url client @ apiEndpoint ''cat'' @ ''?arg='' @ ident) None of
        Inl err \<Rightarrow> ((None, Some err), [])
      | Inr req \<Rightarrow>
          (case httpClient_Do env req of
             Inl err \<Rightarrow> ((None, Some err), [HttpDo req])
           | Inr apiResponse \<Rightarrow> ((Some apiResponse, None), [HttpDo req])))"

section \<open>The revised client: \<^verbatim>\<open>src/client/api.go\<close>, second revision\<close>

definition Client_createMultiPartBody ::
  "Env \<Rightarrow> Client \<Rightarrow> Reader \<Rightarrow> string \<Rightarrow> go_error + Request" where
  "Client_createMultiPartBody env client file fileName =
     (let writer = NewWriter env;
          writer1 = CreateFormFile writer ''file'' fileName
      in case io_Copy writer1 file of
           (writer2, Some err) \<Rightarrow> Inl err
         | (writer2, None) \<Rightarrow>
             (let writer3 = Close writer2 in
              case http_NewRequest env ''POST'' (url client @ apiEndpoint ''add'')
                     (Some (w_buf writer3)) of
                Inl err \<Rightarrow> Inl err
              | Inr req \<Rightarrow>
                  Inr (Header_Set req ''Content-Type''
                         (''multipart/form-data; boundary='' @ Boundary writer3))))"

text \<open>
  The \<^verbatim>\<open>for\<close> loop of the method \<^verbatim>\<open>createDirectoryMultiPartBody\<close>: a directory entry is
  passed over; for any other the part is opened first, then the file, and a file that does
  not open ends the call. The error of \<^verbatim>\<open>io.Copy\<close> is assigned and not looked at.
\<close>

fun Client_directory_loop ::
  "Env \<Rightarrow> string \<Rightarrow> DirEntry list \<Rightarrow> Writer \<Rightarrow> go_error + Writer" where
  "Client_directory_loop env path [] writer = Inr writer"
| "Client_directory_loop env path (file # entries) writer =
     (if entry_IsDir file then Client_directory_loop env path entries writer
      else
        (let writer1 = CreateFormFile writer ''file'' (entry_Name file) in
         case os_Open env (path @ ''/'' @ entry_Name file) of
           Inl err \<Rightarrow> Inl err
         | Inr fileContent \<Rightarrow>
             Client_directory_loop env path entries (fst (io_Copy writer1 fileContent))))"

definition Client_createDirectoryMultiPartBody ::
  "Env \<Rightarrow> Client \<Rightarrow> string \<Rightarrow> go_error + Request" where
  \<comment> \<open>The writer is never closed on this path: no closing delimiter is written.\<close>
  "Client_createDirectoryMultiPartBody env client path =
     (let writer = NewWriter env in
      case os_ReadDir env path of
        Inl err \<Rightarrow> Inl err
      | Inr entries \<Rightarrow>
          (case Client_directory_loop env path entries writer of
             Inl err \<Rightarrow> Inl err
           | Inr writer1 \<Rightarrow>
               (case http_NewRequest env ''POST'' (url client @ apiEndpoint ''add'')
                       (Some (w_buf writer1)) of
                  Inl err \<Rightarrow> Inl err
                | Inr req \<Rightarrow>
                    Inr (Header_Set req ''Content-Type''
                           (''multipart/form-data; boundary='' @ Boundary writer1)))))"

definition Add :: "Env \<Rightarrow> Client \<Rightarrow> string \<Rightarrow> (IPFSResponse option \<times> go_error option) \<times> event list" where
  "Add env client pathName =
     (case os_Stat env pathName of
        Inl err \<Rightarrow> ((None, Some err), [])
      | Inr isDir \<Rightarrow>
          (case (if isDir then Client_createDirectoryMultiPartBody env client pathName
                 else (case os_Open env pathName of
                         Inl err \<Rightarrow> Inl err
                       | Inr file \<Rightarrow> Client_createMultiPartBody env client file pathName)) of
             Inl err \<Rightarrow> ((None, Some err), [])
           | Inr request \<Rightarrow>
               (case httpClient_Do env request of
                  Inl err \<Rightarrow> ((None, Some err), [HttpDo request])
                | Inr apiResponse \<Rightarrow>
                    (case readIPFSResponse env apiResponse of
                       (r, evs) \<Rightarrow> ((r, None), HttpDo request # evs)))))"

definition AddBinary ::
  "Env \<Rightarrow> Client \<Rightarrow> Reader \<Rightarrow> string \<Rightarrow> (IPFSResponse option \<times> go_error option) \<times> event list" where
  "AddBinary env client content fileName =
     (case Client_createMultiPartBody env client content fileName of
        Inl err \<Rightarrow> ((None, Some err), [])
      | Inr req \<Rightarrow>
          (case httpClient_Do env req of
             Inl err \<Rightarrow> ((None, Some err), [HttpDo req])
           | Inr apiResponse \<Rightarrow>
               (case readIPFSResponse env apiResponse of
                  (r, evs) \<Rightarrow> ((r, None), HttpDo req # evs))))"

section \<open>The first revision: \<^verbatim>\<open>src/api.go\<close>, and \<^verbatim>\<open>src/client/api.go\<close> before its rewrite\<close>

text \<open>
  \<^verbatim>\<open>createMultiPartBody\<close> and \<^verbatim>\<open>createDirectoryMultiPartBody\<close> call each other along
  the file system, which the environment does not bound; the first argument bounds the
  depth of the calls, and \<open>None\<close> is "deeper than that". The loop over the entries carries
  the index and the local \<^verbatim>\<open>writerBoundary\<close>.
\<close>

fun createMultiPartBody ::
    "nat \<Rightarrow> Env \<Rightarrow> string \<Rightarrow> Writer \<Rightarrow> ((string \<times> go_error option) \<times> Writer) option"
  and createDirectoryMultiPartBody ::
    "nat \<Rightarrow> Env \<Rightarrow> string \<Rightarrow> Writer \<Rightarrow> ((string \<times> go_error option) \<times> Writer) option"
  and directory_loop ::
    "nat \<Rightarrow> Env \<Rightarrow> string \<Rightarrow> DirEntry list \<Rightarrow> nat \<Rightarrow> string \<Rightarrow> Writer
       \<Rightarrow> (string \<times> Writer) option"
where
  "createMultiPartBody 0 env pathName writer = None"
| "createMultiPartBody (Suc k) env pathName writer =
     (case os_Stat env pathName of
        Inl err \<Rightarrow> Some (([], Some err), writer)
      | Inr isDir \<Rightarrow>
          if isDir then
            (case createDirectoryMultiPartBody k env pathName writer of
               None \<Rightarrow> None
             | Some ((writerBoundary, _), writer1) \<Rightarrow> Some ((writerBoundary, None), writer1))
          else
            (let writer1 = CreateFormFile writer ''file'' (path_Base pathName) in
             case os_Open env pathName of
               Inl err \<Rightarrow> Some (([], Some err), writer1)
             | Inr file \<Rightarrow>
                 (case io_Copy writer1 file of
                    (writer2, Some err) \<Rightarrow> Some (([], Some err), writer2)
                  | (writer2, None) \<Rightarrow> Some ((Boundary writer2, None), writer2))))"
| "createDirectoryMultiPartBody 0 env pathName multiPartBody = None"
| "createDirectoryMultiPartBody (Suc k) env pathName multiPartBody =
     (case os_ReadDir env pathName of
        Inl err \<Rightarrow> Some (([], Some err), multiPartBody)
      | Inr entries \<Rightarrow>
          (case directory_loop k env pathName entries 0 [] multiPartBody of
             None \<Rightarrow> None
           | Some (writerBoundary, writer1) \<Rightarrow> Some ((writerBoundary, None), writer1)))"
| "directory_loop k env pathName [] index writerBoundary multiPartBody =
     Some (writerBoundary, multiPartBody)"
| "directory_loop k env pathName (file # entries) index writerBoundary multiPartBody =
     (if entry_IsDir file then
        (case createDirectoryMultiPartBody k env (pathName @ entry_Name file) multiPartBody of
           None \<Rightarrow> None
         | Some (_, writer1) \<Rightarrow>
             directory_loop k env pathName entries (Suc index) writerBoundary writer1)
      else if index = 0 \<or> writerBoundary = [] then
        (case createMultiPartBody k env (pathName @ ''/'' @ entry_Name file) multiPartBody of
           None \<Rightarrow> None
         | Some ((b, _), writer1) \<Rightarrow>
             directory_loop k env pathName entries (Suc index) b writer1)
      else
        (case createMultiPartBody k env (pathName @ ''/'' @ entry_Name file) multiPartBody of
           None \<Rightarrow> None
         | Some (_, writer1) \<Rightarrow>
             directory_loop k env pathName entries (Suc index) writerBoundary writer1))"

text \<open>
  A call either returns or panics: in the first revision \<^verbatim>\<open>Add\<close> sets the header on the
  request before it looks at the error of \<^verbatim>\<open>http.NewRequest\<close>, and the request is nil
  when there is one.
\<close>

datatype 'a outcome = Return 'a | Panic

definition Add_legacy ::
  "nat \<Rightarrow> Env \<Rightarrow> Client \<Rightarrow> string
     \<Rightarrow> ((IPFSResponse option \<times> go_error option) outcome \<times> event list) option" where
  "Add_legacy k env client pathName =
     (let writer = NewWriter env in
      case createMultiPartBody k env pathName writer of
        None \<Rightarrow> None
      | Some ((boundary, Some err), writer1) \<Rightarrow> Some (Return (None, Some err), [])
      | Some ((boundary, None), writer1) \<Rightarrow>
          (let writer2 = Close writer1 in
           case http_NewRequest env ''POST'' (url client @ apiEndpoint ''add'')
                  (Some (w_buf writer2)) of
             Inl err \<Rightarrow> Some (Panic, [])
           | Inr req \<Rightarrow>
               (let req1 = Header_Set req ''Content-Type''
                             (''multipart/form-data; boundary='' @ boundary)
                in case httpClient_Do env req1 of
                     Inl err \<Rightarrow> Some (Return (None, Some err), [HttpDo req1])
                   | Inr apiResponse \<Rightarrow>
                       (case readIPFSResponse env apiResponse of
                          (r, evs) \<Rightarrow> Some (Return (r, None), HttpDo req1 # evs)))))"

definition legacy_sent :: "nat \<Rightarrow> Env \<Rightarrow> Client \<Rightarrow> string \<Rightarrow> Request list" where
  \<comment> \<open>The requests a call of the first revision's \<^verbatim>\<open>Add\<close> hands to the HTTP client.\<close>
  "legacy_sent k env client pathName =
     (case Add_legacy k env client pathName of
        None \<Rightarrow> []
      | Some (out, evs) \<Rightarrow> sent_requests evs)"

section \<open>A concrete machine\<close>

text \<open>
  The files of the repository's tests (\<^verbatim>\<open>/tmp/test.txt\<close> holding \<^verbatim>\<open>test for file\<close>, a
  directory with \<^verbatim>\<open>test1\<close> and \<^verbatim>\<open>test2\<close>), an empty directory, a directory with a nested
  directory and a file (listed with and without a trailing slash), a directory whose only file cannot
  be opened, one with two files of which the second cannot be opened, one whose only file
  fails while it is read, and one whose only file has a line feed in its name. URLs holding
  a control character do not parse, as in \<^verbatim>\<open>net/url\<close>. The node answers \<^verbatim>\<open>add\<close> with a body the decoder
  accepts and everything else with status 500. The decoder knows one well-formed body, one
  body whose \<^verbatim>\<open>Hash\<close> is a number (\<^verbatim>\<open>encoding/json\<close> stores the other fields and reports
  the mismatch), and rejects the rest without storing anything.
\<close>

definition fixture :: Env where
  "fixture =
     \<lparr>fs_stat = (\<lambda>p. if p = ''/tmp/test.txt'' then Inr False
                      else if p = ''/tmp/test'' then Inr True
                      else if p = ''/tmp/test/test1'' then Inr False
                      else if p = ''/tmp/test/test2'' then Inr False
                      else if p = ''/tmp/empty'' then Inr True
                      else if p = ''/tmp/tree'' then Inr True
                      else if p = ''/tmp/tree/'' then Inr True
                      else if p = ''/tmp/tree/sub'' then Inr True
                      else if p = ''/tmp/tree/sub/inner'' then Inr False
                      else if p = ''/tmp/tree/top'' then Inr False
                      else if p = ''/tmp/tree//top'' then Inr False
                      else if p = ''/tmp/locked'' then Inr True
                      else if p = ''/tmp/locked/secret'' then Inr False
                      else if p = ''/tmp/flaky'' then Inr True
                      else if p = ''/tmp/flaky/disk'' then Inr False
                      else if p = ''/tmp/pair'' then Inr True
                      else if p = ''/tmp/pair/readme'' then Inr False
                      else if p = ''/tmp/pair/secret'' then Inr False
                      else if p = ''/tmp/odd'' then Inr True
                      else if p = ''/tmp/odd/a'' @ [CHR 0x0A] @ ''b'' then Inr False
                      else Inl ''no such file or directory''),
      fs_readdir = (\<lambda>p. if p = ''/tmp/test''
                           then Inr [\<lparr>entry_Name = ''test1'', entry_IsDir = False\<rparr>,
                                     \<lparr>entry_Name = ''test2'', entry_IsDir = False\<rparr>]
                         else if p = ''/tmp/empty'' then Inr []
                         else if p = ''/tmp/tree''
                           then Inr [\<lparr>entry_Name = ''sub'', entry_IsDir = True\<rparr>,
                                     \<lparr>entry_Name = ''top'', entry_IsDir = False\<rparr>]
                         else if p = ''/tmp/tree/''
                           then Inr [\<lparr>entry_Name = ''sub'', entry_IsDir = True\<rparr>,
                                     \<lparr>entry_Name = ''top'', entry_IsDir = False\<rparr>]
                         else if p = ''/tmp/tree/sub''
                           then Inr [\<lparr>entry_Name = ''inner'', entry_IsDir = False\<rparr>]
                         else if p = ''/tmp/locked''
                           then Inr [\<lparr>entry_Name = ''secret'', entry_IsDir = False\<rparr>]
                         else if p = ''/tmp/flaky''
                           then Inr [\<lparr>entry_Name = ''disk'', entry_IsDir = False\<rparr>]
                         else if p = ''/tmp/pair''
                           then Inr [\<lparr>entry_Name = ''readme'', entry_IsDir = False\<rparr>,
                                     \<lparr>entry_Name = ''secret'', entry_IsDir = False\<rparr>]
                         else if p = ''/tmp/odd''
                           then Inr [\<lparr>entry_Name = ''a'' @ [CHR 0x0A] @ ''b'',
                                      entry_IsDir = False\<rparr>]
                         else Inl ''no such file or directory''),
      fs_open = (\<lambda>p. if p = ''/tmp/test.txt''
                        then Inr \<lparr>rd_data = ''test for file'', rd_err = None\<rparr>
                      else if p = ''/tmp/test/test1''
                        then Inr \<lparr>rd_data = ''Hello 1'', rd_err = None\<rparr>
                      else if p = ''/tmp/test/test2''
                        then Inr \<lparr>rd_data = ''Hello 2'', rd_err = None\<rparr>
                      else if p = ''/tmp/tree/sub/inner''
                        then Inr \<lparr>rd_data = ''nested'', rd_err = None\<rparr>
                      else if p = ''/tmp/tree/top''
                        then Inr \<lparr>rd_data = ''upper'', rd_err = None\<rparr>
                      else if p = ''/tmp/tree//top''
                        then Inr \<lparr>rd_data = ''upper'', rd_err = None\<rparr>
                      else if p = ''/tmp/locked/secret'' then Inl ''permission denied''
                      else if p = ''/tmp/flaky/disk''
                        then Inr \<lparr>rd_data = ''half'', rd_err = Some (IOError ''input/output error'')\<rparr>
                      else if p = ''/tmp/pair/readme''
                        then Inr \<lparr>rd_data = ''read me'', rd_err = None\<rparr>
                      else if p = ''/tmp/pair/secret'' then Inl ''permission denied''
                      else if p = ''/tmp/odd/a'' @ [CHR 0x0A] @ ''b''
                        then Inr \<lparr>rd_data = ''odd'', rd_err = None\<rparr>
                      else Inl ''no such file or directory''),
      url_parse = (\<lambda>u. if list_ex (\<lambda>c. (of_char c :: nat) < 32 \<or> c = CHR 0x7F) u
                          then Some ''invalid control character in URL''
                        else None),
      net_do = (\<lambda>req. if req_URL req = ''http://127.0.0.1:5001/api/v0/add''
                         then Inr \<lparr>resp_StatusCode = 200,
                                  resp_Body = \<lparr>rd_data = ''reply'', rd_err = None\<rparr>\<rparr>
                       else Inr \<lparr>resp_StatusCode = 500,
                                 resp_Body = \<lparr>rd_data = ''no link'', rd_err = None\<rparr>\<rparr>),
      json_decode = (\<lambda>data ret.
                       if data = ''reply''
                         then (\<lparr>Name = ''test.txt'', Hash = ''QmHash'', Size = ''21''\<rparr>, None)
                       else if data = ''mistyped''
                         then (ret\<lparr>Name := ''test.txt'', Size := ''21''\<rparr>,
                               Some ''cannot unmarshal number into Go struct field'')
                       else (ret, Some ''invalid character'')),
      rand_boundary = ''5d41402abc4b''\<rparr>"

definition local_client :: Client where
  \<comment> \<open>What \<^verbatim>\<open>NewLocalApi\<close> returns.\<close>
  "local_client =
     \<lparr>base = ''http://127.0.0.1:5001'', httpClient = 4000000000,
      url = ''http://127.0.0.1:5001''\<rparr>"

definition test_request :: "string \<Rightarrow> Request" where
  \<comment> \<open>The upload of \<^verbatim>\<open>/tmp/test.txt\<close> on this machine, under a given file name.\<close>
  "test_request fileName =
     \<lparr>req_Method = ''POST'', req_URL = ''http://127.0.0.1:5001/api/v0/add'',
      req_Header = [(''Content-Type'', ''multipart/form-data; boundary=5d41402abc4b'')],
      req_Body = Some [PartHeader ''5d41402abc4b'' ''file'' fileName,
                       PartData ''test for file'', Closing ''5d41402abc4b'']\<rparr>"

definition truncated_reply :: "Request \<Rightarrow> string + Response" where
  \<comment> \<open>A node whose answer breaks off while the body is read.\<close>
  "truncated_reply req =
     Inr \<lparr>resp_StatusCode = 200,
          resp_Body = \<lparr>rd_data = ''rep'', rd_err = Some (NetworkError ''unexpected EOF'')\<rparr>\<rparr>"

definition mistyped_reply :: "Request \<Rightarrow> string + Response" where
  \<comment> \<open>A node whose answer is JSON with a number where \<^verbatim>\<open>Hash\<close> should be a string.\<close>
  "mistyped_reply req =
     Inr \<lparr>resp_StatusCode = 200, resp_Body = \<lparr>rd_data = ''mistyped'', rd_err = None\<rparr>\<rparr>"

definition garbled_reply :: "Request \<Rightarrow> string + Response" where
  \<comment> \<open>A node whose answer is not JSON at all.\<close>
  "garbled_reply req =
     Inr \<lparr>resp_StatusCode = 200, resp_Body = \<lparr>rd_data = ''<html>'', rd_err = None\<rparr>\<rparr>"

section \<open>Multipart buffers\<close>

lemma escapeQuotes_file: "escapeQuotes ''file'' = ''file''"
  by (simp add: escapeQuotes_def)

text \<open>A name without backslash, double quote, CR and LF is written as it is.\<close>

lemma escapeQuotes_plain:
  "set n \<inter> {CHR 0x5C, CHR 0x22, CHR 0x0D, CHR 0x0A} = {} \<Longrightarrow> escapeQuotes n = n"
  by (induction n) (auto simp: escapeQuotes_def)

lemma CreateFormFile_file:
  "CreateFormFile w ''file'' n =
     w\<lparr>w_buf := w_buf w @ [PartHeader (w_boundary w) ''file'' (escapeQuotes n)]\<rparr>"
  by (simp add: CreateFormFile_def escapeQuotes_file)

lemma parts_of_snoc: "parts_of (cs @ [c]) = add_chunk (parts_of cs) c"
  by (simp add: parts_of_def)

lemma part_names_header:
  "part_names (cs @ [PartHeader b f n]) = part_names cs @ [(f, n)]"
  by (simp add: part_names_def parts_of_snoc)

lemma part_names_data:
  "part_names (cs @ [PartData d]) = part_names cs"
  by (cases "rev (parts_of cs)") (auto simp: part_names_def parts_of_snoc rev_map[symmetric] simp del: rev_map)

lemma part_names_header_data:
  "part_names (cs @ [PartHeader b f n, PartData d]) = part_names cs @ [(f, n)]"
  using part_names_data [of "cs @ [PartHeader b f n]" d] by (simp add: part_names_header)


section \<open>The directory loop of the revised client\<close>

lemma Client_directory_loop_names:
  "Client_directory_loop env path entries w = Inr w' \<Longrightarrow>
     w_boundary w' = w_boundary w \<and>
     part_names (w_buf w') =
       part_names (w_buf w) @ map (\<lambda>e. (''file'', escapeQuotes (entry_Name e))) (filter (\<lambda>e. \<not> entry_IsDir e) entries)"
proof (induction entries arbitrary: w)
  case Nil
  then show ?case by simp
next
  case (Cons entry entries)
  show ?case
  proof (cases "entry_IsDir entry")
    case True
    with Cons show ?thesis by simp
  next
    case False
    with Cons.prems obtain f where
      f: "os_Open env (path @ ''/'' @ entry_Name entry) = Inr f" and
      rest: "Client_directory_loop env path entries
               (fst (io_Copy (CreateFormFile w ''file'' (entry_Name entry)) f)) = Inr w'"
      by (auto simp: Let_def split: sum.splits)
    from Cons.IH [OF rest] False show ?thesis
      by (simp add: io_Copy_def CreateFormFile_file part_names_header_data)
  qed
qed

lemma Client_directory_loop_delimiters:
  "Client_directory_loop env path entries w = Inr w' \<Longrightarrow>
     set (delimiters (w_buf w)) \<subseteq> {w_boundary w} \<Longrightarrow>
     set (delimiters (w_buf w')) \<subseteq> {w_boundary w}"
proof (induction entries arbitrary: w)
  case Nil
  then show ?case by simp
next
  case (Cons entry entries)
  show ?case
  proof (cases "entry_IsDir entry")
    case True
    with Cons show ?thesis by simp
  next
    case False
    with Cons.prems obtain f where
      rest: "Client_directory_loop env path entries
               (fst (io_Copy (CreateFormFile w ''file'' (entry_Name entry)) f)) = Inr w'"
      by (auto simp: Let_def split: sum.splits)
    from Cons.IH [OF rest] Cons.prems(2) show ?thesis
      by (simp add: io_Copy_def CreateFormFile_file delimiters_def)
  qed
qed

lemma Client_directory_loop_open_fails:
  "file \<in> set entries \<Longrightarrow> \<not> entry_IsDir file \<Longrightarrow>
   fs_open env (path @ ''/'' @ entry_Name file) = Inl m \<Longrightarrow>
   \<exists>m'. Client_directory_loop env path entries w = Inl (IOError m')"
proof (induction entries arbitrary: w)
  case Nil
  then show ?case by simp
next
  case (Cons e entries)
  show ?case
  proof (cases "entry_IsDir e")
    case True
    with Cons show ?thesis by auto
  next
    case False
    show ?thesis
    proof (cases "fs_open env (path @ ''/'' @ entry_Name e)")
      case (Inl a)
      with False show ?thesis by (simp add: os_Open_def Let_def)
    next
      case (Inr f)
      with Cons.prems have "file \<in> set entries" by auto
      from Cons.IH [OF this Cons.prems(2,3)] Inr False show ?thesis
        by (simp add: os_Open_def Let_def)
    qed
  qed
qed

lemma Client_directory_loop_succeeds:
  "\<forall>e \<in> set entries. \<not> entry_IsDir e \<longrightarrow> (\<exists>f. fs_open env (path @ ''/'' @ entry_Name e) = Inr f) \<Longrightarrow>
   \<exists>w'. Client_directory_loop env path entries w = Inr w'"
proof (induction entries arbitrary: w)
  case Nil
  then show ?case by simp
next
  case (Cons e entries)
  then show ?case by (auto simp: os_Open_def Let_def)
qed

lemma Add_directory_request:
  "fs_stat env p = Inr True \<Longrightarrow> HttpDo req \<in> set (snd (Add env client p)) \<Longrightarrow>
     Client_createDirectoryMultiPartBody env client p = Inr req"
  by (auto simp: Add_def os_Stat_def httpClient_Do_def readIPFSResponse_def
           split: sum.splits option.splits prod.splits)

lemma Add_file_request:
  "fs_stat env p = Inr False \<Longrightarrow> HttpDo req \<in> set (snd (Add env client p)) \<Longrightarrow>
     \<exists>f. fs_open env p = Inr f \<and> Client_createMultiPartBody env client f p = Inr req"
  by (auto simp: Add_def os_Stat_def os_Open_def httpClient_Do_def readIPFSResponse_def
           split: sum.splits option.splits prod.splits)

lemma Add_sends:
  "os_Stat env p = Inr True \<Longrightarrow> Client_createDirectoryMultiPartBody env client p = Inr req \<Longrightarrow>
     \<exists>rest. snd (Add env client p) = HttpDo req # rest"
  by (auto simp: Add_def httpClient_Do_def readIPFSResponse_def
           split: sum.splits option.splits prod.splits)

lemma Client_createDirectoryMultiPartBody_names:
  assumes "fs_readdir env p = Inr entries"
    and "Client_createDirectoryMultiPartBody env client p = Inr req"
  shows "body_names req = map (\<lambda>e. (''file'', escapeQuotes (entry_Name e))) (filter (\<lambda>e. \<not> entry_IsDir e) entries)"
proof -
  from assms obtain w where
    loop: "Client_directory_loop env p entries (NewWriter env) = Inr w" and
    body: "req_Body req = Some (w_buf w)"
    by (auto simp: Client_createDirectoryMultiPartBody_def os_ReadDir_def http_NewRequest_def
                   Header_Set_def Let_def split: sum.splits option.splits)
  from Client_directory_loop_names [OF loop] body show ?thesis
    by (simp add: body_names_def NewWriter_def part_names_def parts_of_def)
qed

lemma Client_createDirectoryMultiPartBody_succeeds:
  assumes "fs_readdir env p = Inr entries"
    and "\<forall>e \<in> set entries. \<not> entry_IsDir e \<longrightarrow> (\<exists>f. fs_open env (p @ ''/'' @ entry_Name e) = Inr f)"
    and "url_parse env (url client @ ''/api/v0/add'') = None"
  shows "\<exists>req. Client_createDirectoryMultiPartBody env client p = Inr req"
proof -
  from Client_directory_loop_succeeds [OF assms(2)] obtain w where
    "Client_directory_loop env p entries (NewWriter env) = Inr w" by blast
  with assms(1,3) show ?thesis
    by (simp add: Client_createDirectoryMultiPartBody_def os_ReadDir_def http_NewRequest_def
                   apiEndpoint_def apiPath_def Let_def)
qed

section \<open>The first revision\<close>

text \<open>
  The depth bound only cuts runs short: a result reached within a bound is the result
  within every larger bound.
\<close>

lemma deeper_bound_same_result:
  "(\<forall>r. createMultiPartBody k env p w = Some r \<longrightarrow> createMultiPartBody (Suc k) env p w = Some r)"
  "(\<forall>r. createDirectoryMultiPartBody k env p w = Some r \<longrightarrow>
        createDirectoryMultiPartBody (Suc k) env p w = Some r)"
  "(\<forall>r. directory_loop k env p es i wb w = Some r \<longrightarrow>
        directory_loop (Suc k) env p es i wb w = Some r)"
proof (induction k env p w and k env p w and k env p es i wb w
       rule: createMultiPartBody_createDirectoryMultiPartBody_directory_loop.induct)
  case (1 env pathName writer)
  then show ?case by simp
next
  case (2 k env pathName writer)
  then show ?case
    by (cases "os_Stat env pathName") (auto split: option.splits)
next
  case (3 env pathName multiPartBody)
  then show ?case by simp
next
  case (4 k env pathName multiPartBody)
  then show ?case
    by (cases "os_ReadDir env pathName") (auto split: option.splits)
next
  case (5 k env pathName index writerBoundary multiPartBody)
  then show ?case by simp
next
  case (6 k env pathName entry entries index writerBoundary multiPartBody)
  then show ?case
    by (auto simp del: createMultiPartBody.simps createDirectoryMultiPartBody.simps
             split: option.splits)
qed

lemma Add_legacy_depth:
  assumes "Add_legacy k env client p = Some r"
  shows "Add_legacy (k + d) env client p = Some r"
proof (induction d)
  case 0
  show ?case using assms by simp
next
  case (Suc d)
  then obtain r' where c: "createMultiPartBody (k + d) env p (NewWriter env) = Some r'"
    by (auto simp: Add_legacy_def Let_def split: option.splits)
  with deeper_bound_same_result(1) have "createMultiPartBody (Suc (k + d)) env p (NewWriter env) = Some r'"
    by blast
  with c Suc show ?case by (simp add: Add_legacy_def Let_def)
qed



lemma createMultiPartBody_directory_no_error:
  assumes "fs_stat env p = Inr True"
    and "createMultiPartBody k env p w = Some ((b, e), w')"
  shows "e = None"
  using assms by (cases k) (auto simp: os_Stat_def split: option.splits)


section \<open>Running the code, and what both revisions share\<close>

lemmas run_defs = Add_def AddBinary_def Add_legacy_def Cat_def legacy_sent_def
  Client_createMultiPartBody_def Client_createDirectoryMultiPartBody_def readIPFSResponse_def
  os_Stat_def os_ReadDir_def os_Open_def NewWriter_def Boundary_def CreateFormFile_def
  io_Copy_def Close_def http_NewRequest_def Header_Set_def httpClient_Do_def json_Unmarshal_def
  apiEndpoint_def apiPath_def emptyResponse_def sent_requests_def body_names_def body_parts_def
  body_delimiters_def header_boundary_def part_names_def parts_of_def delimiters_def
  fixture_def local_client_def test_request_def truncated_reply_def mistyped_reply_def
  garbled_reply_def path_Base_def escapeQuotes_def Let_def

text \<open>
  What the single-file builder of the revised client writes: the header carries the
  writer's boundary, the body one part opened and the closing delimiter, both with that
  boundary, and the part is named by the \<^verbatim>\<open>fileName\<close> argument as it stands.
\<close>

lemma Client_createMultiPartBody_boundary:
  assumes "Client_createMultiPartBody env client f n = Inr req"
  shows "header_boundary req = Some (rand_boundary env)
       \<and> body_delimiters req = [rand_boundary env, rand_boundary env]
       \<and> body_parts req = [\<lparr>part_field = ''file'', part_filename = escapeQuotes n, part_content = rd_data f\<rparr>]"
  using assms
  by (auto simp: Client_createMultiPartBody_def NewWriter_def CreateFormFile_file io_Copy_def
                 Close_def Boundary_def http_NewRequest_def Header_Set_def header_boundary_def
                 body_delimiters_def delimiters_def body_parts_def parts_of_def Let_def
           split: option.splits)

lemma Client_createDirectoryMultiPartBody_boundary:
  assumes "Client_createDirectoryMultiPartBody env client p = Inr req"
  shows "header_boundary req = Some (rand_boundary env)
       \<and> set (body_delimiters req) \<subseteq> {rand_boundary env}"
proof -
  from assms obtain entries w where
    loop: "Client_directory_loop env p entries (NewWriter env) = Inr w" and
    body: "req_Body req = Some (w_buf w)" and
    hdr: "req_Header req = [(''Content-Type'', ''multipart/form-data; boundary='' @ w_boundary w)]"
    by (auto simp: Client_createDirectoryMultiPartBody_def http_NewRequest_def
                   Header_Set_def Boundary_def Let_def split: sum.splits option.splits)
  have "set (delimiters (w_buf (NewWriter env))) \<subseteq> {w_boundary (NewWriter env)}"
    by (simp add: NewWriter_def delimiters_def)
  from Client_directory_loop_delimiters [OF loop this] Client_directory_loop_names [OF loop]
  show ?thesis using body hdr
    by (simp add: header_boundary_def body_delimiters_def NewWriter_def)
qed

text \<open>
  In the revised client the boundary of the header is the boundary of every delimiter of
  the body, for files, directories and streams alike.
\<close>

lemma Add_boundary_consistent:
  assumes "HttpDo req \<in> set (snd (Add env client p))"
  shows "header_boundary req = Some (rand_boundary env)
       \<and> set (body_delimiters req) \<subseteq> {rand_boundary env}"
proof (cases "fs_stat env p")
  case (Inl m)
  with assms show ?thesis by (simp add: Add_def os_Stat_def)
next
  case (Inr d)
  show ?thesis
  proof (cases d)
    case True
    with Inr assms have "Client_createDirectoryMultiPartBody env client p = Inr req"
      using Add_directory_request by simp
    then show ?thesis by (rule Client_createDirectoryMultiPartBody_boundary)
  next
    case False
    with Inr have "fs_stat env p = Inr False" by simp
    from Add_file_request [OF this assms]
    obtain f where "Client_createMultiPartBody env client f p = Inr req" by blast
    from Client_createMultiPartBody_boundary [OF this] show ?thesis by simp
  qed
qed

lemma AddBinary_boundary_consistent:
  assumes "HttpDo req \<in> set (snd (AddBinary env client content fileName))"
  shows "header_boundary req = Some (rand_boundary env)
       \<and> set (body_delimiters req) \<subseteq> {rand_boundary env}"
proof -
  from assms have "Client_createMultiPartBody env client content fileName = Inr req"
    by (auto simp: AddBinary_def httpClient_Do_def readIPFSResponse_def
             split: sum.splits option.splits prod.splits)
  from Client_createMultiPartBody_boundary [OF this] show ?thesis by simp
qed

text \<open>
  The file name of a single-file upload: the revised \<^verbatim>\<open>Add\<close> passes on the path it was
  given, the first revision the base name of that path.
\<close>

lemma Add_file_full_path:
  assumes "fs_stat env p = Inr False" and "HttpDo req \<in> set (snd (Add env client p))"
  shows "\<exists>f. fs_open env p = Inr f
           \<and> body_parts req = [\<lparr>part_field = ''file'', part_filename = escapeQuotes p, part_content = rd_data f\<rparr>]"
proof -
  from Add_file_request [OF assms] obtain f where
    "fs_open env p = Inr f" and "Client_createMultiPartBody env client f p = Inr req" by blast
  with Client_createMultiPartBody_boundary [of env client f p req] show ?thesis by blast
qed

lemma legacy_Add_file_base_name:
  assumes "fs_stat env p = Inr False" and "fs_open env p = Inr f" and "rd_err f = None"
    and "url_parse env (url client @ ''/api/v0/add'') = None"
  shows "map body_parts (legacy_sent (Suc k) env client p) =
           [[\<lparr>part_field = ''file'', part_filename = escapeQuotes (path_Base p), part_content = rd_data f\<rparr>]]"
  using assms
  by (auto simp: legacy_sent_def Add_legacy_def os_Stat_def os_Open_def NewWriter_def
                 CreateFormFile_file io_Copy_def Close_def Boundary_def http_NewRequest_def
                 Header_Set_def httpClient_Do_def readIPFSResponse_def apiEndpoint_def apiPath_def
                 sent_requests_def body_parts_def parts_of_def Let_def
           split: sum.splits option.splits)

text \<open>
  The first revision drops every error raised under a directory: \<^verbatim>\<open>createMultiPartBody\<close>
  returns a nil error for a directory, so \<^verbatim>\<open>Add\<close> goes on to send what was written.
\<close>

lemma legacy_Add_directory_always_sends:
  assumes "fs_stat env p = Inr True" and "Add_legacy k env client p = Some (out, evs)"
  shows "out = Panic \<or> (\<exists>req rest. evs = HttpDo req # rest)"
proof -
  from assms(2) obtain b e w where c: "createMultiPartBody k env p (NewWriter env) = Some ((b, e), w)"
    by (auto simp: Add_legacy_def Let_def split: option.splits)
  from createMultiPartBody_directory_no_error [OF assms(1) c] have "e = None" .
  with c assms(2) show ?thesis
    by (auto simp: Add_legacy_def Let_def httpClient_Do_def readIPFSResponse_def
             split: sum.splits option.splits prod.splits)
qed



lemma Add_directory_open_failure_aborts:
  assumes "fs_stat env p = Inr True"
  shows "(fs_readdir env p = Inl m \<longrightarrow> Add env client p = ((None, Some (IOError m)), []))
       \<and> (fs_readdir env p = Inr entries \<and> entry \<in> set entries \<and> \<not> entry_IsDir entry
            \<and> fs_open env (p @ ''/'' @ entry_Name entry) = Inl m
          \<longrightarrow> (\<exists>m'. Add env client p = ((None, Some (IOError m')), [])))"
proof (intro conjI impI)
  assume "fs_readdir env p = Inl m"
  with assms show "Add env client p = ((None, Some (IOError m)), [])"
    by (simp add: Add_def os_Stat_def os_ReadDir_def Client_createDirectoryMultiPartBody_def Let_def)
next
  assume h: "fs_readdir env p = Inr entries \<and> entry \<in> set entries \<and> \<not> entry_IsDir entry
            \<and> fs_open env (p @ ''/'' @ entry_Name entry) = Inl m"
  then obtain m' where
    "Client_directory_loop env p entries (NewWriter env) = Inl (IOError m')"
    using Client_directory_loop_open_fails by blast
  with h assms have "Add env client p = ((None, Some (IOError m')), [])"
    by (simp add: Add_def os_Stat_def os_ReadDir_def Client_createDirectoryMultiPartBody_def Let_def)
  then show "\<exists>m'. Add env client p = ((None, Some (IOError m')), [])" ..
qed



text \<open>
  A file name with a line feed in it is not sent as it is: for the directory \<^verbatim>\<open>/tmp/odd\<close>
  the part carries the name with the line feed percent-encoded.
\<close>

lemma Add_escapes_line_feed:
  "map body_names (sent_requests (snd (Add fixture local_client ''/tmp/odd''))) =
     [[(''file'', ''a%0Ab'')]]"
  by (simp add: run_defs)

text \<open>
  The constructors: the local client, and a timeout whose product with \<^verbatim>\<open>time.Second\<close>
  leaves the range of \<^verbatim>\<open>int64\<close> and comes out negative.
\<close>

lemma NewLocalApi_fixture: "NewLocalApi fixture = Inr local_client"
  by (simp add: NewLocalApi_def NewIPFSApi_def fixture_def local_client_def time_Second_def)

lemma NewIPFSApi_timeout_wraps:
  "NewIPFSApi fixture ''http://127.0.0.1:5001'' 9223372037 = Inr c \<Longrightarrow>
     sint (httpClient c) = - 9223372036709551616"
  by (auto simp: NewIPFSApi_def fixture_def time_Second_def)

section \<open>The claims\<close>

text \<open>
  C1, as stated, fails on the first revision. Listing \<^verbatim>\<open>/tmp/tree/\<close> gives the directory
  \<^verbatim>\<open>sub\<close> and the file \<^verbatim>\<open>top\<close>; for \<^verbatim>\<open>sub\<close> the loop calls
  \<^verbatim>\<open>createDirectoryMultiPartBody(pathName + file.Name(), ...)\<close>, here \<^verbatim>\<open>/tmp/tree/sub\<close>, and
  the file \<^verbatim>\<open>inner\<close> found there is uploaded as a part of its own.
\<close>

theorem legacy_Add_uploads_nested_file:
  "fs_readdir fixture ''/tmp/tree/'' =
     Inr [\<lparr>entry_Name = ''sub'', entry_IsDir = True\<rparr>, \<lparr>entry_Name = ''top'', entry_IsDir = False\<rparr>]
   \<and> map body_names (legacy_sent 5 fixture local_client ''/tmp/tree/'') =
       [[(''file'', ''inner''), (''file'', ''top'')]]"
  by (simp add: run_defs eval_nat_numeral)

text \<open>
  C1, amended: for every path that names a directory, \<^verbatim>\<open>Add\<close> of the revised client lists
  the directory once; the request it sends carries exactly one part named \<^verbatim>\<open>file\<close> for each
  entry that is not a directory, in listing order, and nothing for an entry that is a
  directory. The file name of the part is the entry's name as \<^verbatim>\<open>mime/multipart\<close> writes it
  into the header: backslash and double quote with a backslash in front, CR and LF
  percent-encoded, and so the name itself when it holds none of these. Such a request is
  sent whenever every one of those entries can be opened and the endpoint URL parses.
\<close>

theorem Add_directory_immediate_entries:
  assumes "fs_stat env p = Inr True" and "fs_readdir env p = Inr entries"
  shows "(HttpDo req \<in> set (snd (Add env client p)) \<longrightarrow>
            body_names req =
              map (\<lambda>e. (''file'', escapeQuotes (entry_Name e)))
                (filter (\<lambda>e. \<not> entry_IsDir e) entries))
       \<and> (HttpDo req \<in> set (snd (Add env client p))
             \<and> (\<forall>e \<in> set entries.
                    set (entry_Name e) \<inter> {CHR 0x5C, CHR 0x22, CHR 0x0D, CHR 0x0A} = {})
           \<longrightarrow> body_names req =
                 map (\<lambda>e. (''file'', entry_Name e)) (filter (\<lambda>e. \<not> entry_IsDir e) entries))
       \<and> ((\<forall>e \<in> set entries. \<not> entry_IsDir e \<longrightarrow>
                (\<exists>f. fs_open env (p @ ''/'' @ entry_Name e) = Inr f))
             \<and> url_parse env (url client @ ''/api/v0/add'') = None
           \<longrightarrow> (\<exists>r rest. snd (Add env client p) = HttpDo r # rest))"
proof (intro conjI impI)
  assume "HttpDo req \<in> set (snd (Add env client p))"
  from Add_directory_request [OF assms(1) this]
  show "body_names req =
          map (\<lambda>e. (''file'', escapeQuotes (entry_Name e)))
            (filter (\<lambda>e. \<not> entry_IsDir e) entries)"
    by (rule Client_createDirectoryMultiPartBody_names [OF assms(2)])
next
  assume h: "HttpDo req \<in> set (snd (Add env client p))
             \<and> (\<forall>e \<in> set entries.
                    set (entry_Name e) \<inter> {CHR 0x5C, CHR 0x22, CHR 0x0D, CHR 0x0A} = {})"
  then have "HttpDo req \<in> set (snd (Add env client p))" by (rule conjunct1)
  from Add_directory_request [OF assms(1) this]
  have "body_names req =
          map (\<lambda>e. (''file'', escapeQuotes (entry_Name e)))
            (filter (\<lambda>e. \<not> entry_IsDir e) entries)"
    by (rule Client_createDirectoryMultiPartBody_names [OF assms(2)])
  also have "\<dots> = map (\<lambda>e. (''file'', entry_Name e)) (filter (\<lambda>e. \<not> entry_IsDir e) entries)"
    using h by (intro map_cong) (auto simp: escapeQuotes_plain)
  finally show "body_names req =
                  map (\<lambda>e. (''file'', entry_Name e)) (filter (\<lambda>e. \<not> entry_IsDir e) entries)" .
next
  assume "(\<forall>e \<in> set entries. \<not> entry_IsDir e \<longrightarrow>
              (\<exists>f. fs_open env (p @ ''/'' @ entry_Name e) = Inr f))
          \<and> url_parse env (url client @ ''/api/v0/add'') = None"
  then obtain r where "Client_createDirectoryMultiPartBody env client p = Inr r"
    using Client_createDirectoryMultiPartBody_succeeds [OF assms(2)] by blast
  moreover have "os_Stat env p = Inr True"
    using assms(1) by (simp add: os_Stat_def)
  ultimately show "\<exists>r rest. snd (Add env client p) = HttpDo r # rest"
    using Add_sends by blast
qed

theorem Add_directory_immediate_entries_witness:
  "fs_stat fixture ''/tmp/tree'' = Inr True
   \<and> fs_readdir fixture ''/tmp/tree'' =
       Inr [\<lparr>entry_Name = ''sub'', entry_IsDir = True\<rparr>, \<lparr>entry_Name = ''top'', entry_IsDir = False\<rparr>]
   \<and> fs_open fixture ''/tmp/tree/top'' = Inr \<lparr>rd_data = ''upper'', rd_err = None\<rparr>
   \<and> url_parse fixture (url local_client @ ''/api/v0/add'') = None
   \<and> set ''sub'' \<inter> {CHR 0x5C, CHR 0x22, CHR 0x0D, CHR 0x0A} = {}
   \<and> set ''top'' \<inter> {CHR 0x5C, CHR 0x22, CHR 0x0D, CHR 0x0A} = {}
   \<and> map body_names (sent_requests (snd (Add fixture local_client ''/tmp/tree''))) =
       [[(''file'', ''top'')]]
   \<and> fs_stat fixture ''/tmp/odd'' = Inr True
   \<and> fs_readdir fixture ''/tmp/odd'' =
       Inr [\<lparr>entry_Name = ''a'' @ [CHR 0x0A] @ ''b'', entry_IsDir = False\<rparr>]
   \<and> map body_names (sent_requests (snd (Add fixture local_client ''/tmp/odd''))) =
       [[(''file'', escapeQuotes (''a'' @ [CHR 0x0A] @ ''b''))]]
   \<and> escapeQuotes (''a'' @ [CHR 0x0A] @ ''b'') = ''a%0Ab''"
proof -
  let ?entries = "[\<lparr>entry_Name = ''sub'', entry_IsDir = True\<rparr>,
                   \<lparr>entry_Name = ''top'', entry_IsDir = False\<rparr>]"
  let ?odd = "[\<lparr>entry_Name = ''a'' @ [CHR 0x0A] @ ''b'', entry_IsDir = False\<rparr>]"
  have d: "fs_stat fixture ''/tmp/tree'' = Inr True"
    by (simp add: fixture_def)
  have l: "fs_readdir fixture ''/tmp/tree'' = Inr ?entries"
    by (simp add: fixture_def)
  have o: "fs_open fixture ''/tmp/tree/top'' = Inr \<lparr>rd_data = ''upper'', rd_err = None\<rparr>"
    by (simp add: fixture_def)
  have u: "url_parse fixture (url local_client @ ''/api/v0/add'') = None"
    by (simp add: fixture_def local_client_def)
  have n1: "set ''sub'' \<inter> {CHR 0x5C, CHR 0x22, CHR 0x0D, CHR 0x0A} = {}" by simp
  have n2: "set ''top'' \<inter> {CHR 0x5C, CHR 0x22, CHR 0x0D, CHR 0x0A} = {}" by simp
  have d': "fs_stat fixture ''/tmp/odd'' = Inr True"
    by (simp add: fixture_def)
  have l': "fs_readdir fixture ''/tmp/odd'' = Inr ?odd"
    by (simp add: fixture_def)
  have e: "escapeQuotes (''a'' @ [CHR 0x0A] @ ''b'') = ''a%0Ab''"
    by (simp add: escapeQuotes_def)
  let ?r = "\<lparr>req_Method = ''POST'', req_URL = ''http://127.0.0.1:5001/api/v0/add'',
              req_Header = [(''Content-Type'', ''multipart/form-data; boundary=5d41402abc4b'')],
              req_Body = Some [PartHeader ''5d41402abc4b'' ''file'' ''top'', PartData ''upper'']\<rparr>"
  let ?r' = "\<lparr>req_Method = ''POST'', req_URL = ''http://127.0.0.1:5001/api/v0/add'',
               req_Header = [(''Content-Type'', ''multipart/form-data; boundary=5d41402abc4b'')],
               req_Body = Some [PartHeader ''5d41402abc4b'' ''file'' ''a%0Ab'', PartData ''odd'']\<rparr>"
  have run: "snd (Add fixture local_client ''/tmp/tree'') = [HttpDo ?r, BodyReadAll, BodyClose]"
    by (simp add: run_defs)
  have run': "snd (Add fixture local_client ''/tmp/odd'') = [HttpDo ?r', BodyReadAll, BodyClose]"
    by (simp add: run_defs)
  from run have m: "HttpDo ?r \<in> set (snd (Add fixture local_client ''/tmp/tree''))" by simp
  from run' have m': "HttpDo ?r' \<in> set (snd (Add fixture local_client ''/tmp/odd''))" by simp
  from Add_directory_immediate_entries [OF d l, where req = ?r and client = local_client,
         THEN conjunct2, THEN conjunct1] m n1 n2
  have n: "body_names ?r = [(''file'', ''top'')]" by simp
  from Add_directory_immediate_entries [OF d' l', where req = ?r' and client = local_client,
         THEN conjunct1] m'
  have n': "body_names ?r' = [(''file'', escapeQuotes (''a'' @ [CHR 0x0A] @ ''b''))]" by simp
  have s: "sent_requests (snd (Add fixture local_client ''/tmp/tree'')) = [?r]"
    unfolding run by (simp add: sent_requests_def)
  have s': "sent_requests (snd (Add fixture local_client ''/tmp/odd'')) = [?r']"
    unfolding run' by (simp add: sent_requests_def)
  from n n' s s' d l o u n1 n2 d' l' e show ?thesis by simp
qed

text \<open>
  C2 holds in the first revision and is broken by the rewrite: \<^verbatim>\<open>Add\<close> of the revised
  client hands \<^verbatim>\<open>pathName\<close> itself to \<^verbatim>\<open>createMultiPartBody\<close> as the file name, where the
  first revision passed \<^verbatim>\<open>path.Base(pathName)\<close>. Uploading \<^verbatim>\<open>/tmp/test.txt\<close> sends one
  part named \<^verbatim>\<open>file\<close> with the file's bytes, but under the file name \<^verbatim>\<open>/tmp/test.txt\<close>,
  while the base name is \<^verbatim>\<open>test.txt\<close>.
\<close>

theorem Add_file_part_named_by_full_path:
  "map body_parts (sent_requests (snd (Add fixture local_client ''/tmp/test.txt''))) =
     [[\<lparr>part_field = ''file'', part_filename = ''/tmp/test.txt'',
        part_content = ''test for file''\<rparr>]]
   \<and> path_Base ''/tmp/test.txt'' = ''test.txt''
   \<and> map body_parts (legacy_sent 1 fixture local_client ''/tmp/test.txt'') =
     [[\<lparr>part_field = ''file'', part_filename = ''test.txt'',
        part_content = ''test for file''\<rparr>]]"
  by (simp add: run_defs)

text \<open>
  C3 is what the code sets out to do and misses, in both revisions. In the first revision
  every error raised while the body of a directory is built is dropped: in \<^verbatim>\<open>/tmp/locked\<close>
  the file \<^verbatim>\<open>secret\<close> cannot be opened, and \<^verbatim>\<open>Add\<close> sends the request all the same, with an
  empty part for \<^verbatim>\<open>secret\<close>, and returns the node's answer with a nil error. The revised
  client returns the error of \<^verbatim>\<open>os.Open\<close>, but assigns the error of \<^verbatim>\<open>io.Copy\<close> and never
  looks at it: in \<^verbatim>\<open>/tmp/flaky\<close> the file \<^verbatim>\<open>disk\<close> fails while it is read, and \<^verbatim>\<open>Add\<close> sends
  the part as far as it was read and returns the node's answer with a nil error.
\<close>

theorem Add_directory_failure_unreported:
  "fs_open fixture ''/tmp/locked/secret'' = Inl ''permission denied''
   \<and> Add_legacy 3 fixture local_client ''/tmp/locked'' =
       Some (Return (Some \<lparr>Name = ''test.txt'', Hash = ''QmHash'', Size = ''21''\<rparr>, None),
             [HttpDo \<lparr>req_Method = ''POST'', req_URL = ''http://127.0.0.1:5001/api/v0/add'',
                      req_Header = [(''Content-Type'', ''multipart/form-data; boundary='')],
                      req_Body = Some [PartHeader ''5d41402abc4b'' ''file'' ''secret'',
                                       Closing ''5d41402abc4b'']\<rparr>,
              BodyReadAll, BodyClose])
   \<and> fs_open fixture ''/tmp/flaky/disk'' =
       Inr \<lparr>rd_data = ''half'', rd_err = Some (IOError ''input/output error'')\<rparr>
   \<and> Add fixture local_client ''/tmp/flaky'' =
       ((Some \<lparr>Name = ''test.txt'', Hash = ''QmHash'', Size = ''21''\<rparr>, None),
        [HttpDo \<lparr>req_Method = ''POST'', req_URL = ''http://127.0.0.1:5001/api/v0/add'',
                 req_Header = [(''Content-Type'', ''multipart/form-data; boundary=5d41402abc4b'')],
                 req_Body = Some [PartHeader ''5d41402abc4b'' ''file'' ''disk'',
                                  PartData ''half'']\<rparr>,
         BodyReadAll, BodyClose])"
  by (simp add: run_defs eval_nat_numeral)

text \<open>
  C4, as stated, fails: the verdict of \<^verbatim>\<open>json.Unmarshal\<close> is discarded, so the result is the
  struct as the decoder left it, and the decoder stores the fields that do decode before it
  reports a field of the wrong type. For a body whose \<^verbatim>\<open>Hash\<close> is a number the decoder
  reports an error, and \<^verbatim>\<open>Add\<close> returns a nil error with a result that is not zero-valued.
\<close>

theorem Add_decode_error_partial_result:
  "snd (json_Unmarshal (fixture\<lparr>net_do := mistyped_reply\<rparr>) ''mistyped'' emptyResponse) =
     Some ''cannot unmarshal number into Go struct field''
   \<and> Add (fixture\<lparr>net_do := mistyped_reply\<rparr>) local_client ''/tmp/test.txt'' =
       ((Some \<lparr>Name = ''test.txt'', Hash = [], Size = ''21''\<rparr>, None),
        [HttpDo (test_request ''/tmp/test.txt''), BodyReadAll, BodyClose])
   \<and> \<lparr>Name = ''test.txt'', Hash = [], Size = ''21''\<rparr> \<noteq> emptyResponse"
  by (simp add: run_defs)

text \<open>
  C4, amended: for every HTTP exchange of \<^verbatim>\<open>Add\<close> that completes without a transport error
  and whose body is read to its end, \<^verbatim>\<open>Add\<close> returns a nil error together with the result
  struct exactly as \<^verbatim>\<open>json.Unmarshal\<close> left it after starting from the zero value, whatever
  the decoder's verdict: the zero value when the decoder stored nothing, as it does for a
  body that is not JSON. Both revisions of \<^verbatim>\<open>Add\<close> behave so.
\<close>

theorem Add_decode_verdict_ignored:
  assumes "net_do env req = Inr resp" and "rd_err (resp_Body resp) = None"
  shows "(HttpDo req \<in> set (snd (Add env client p)) \<longrightarrow>
            fst (Add env client p) =
              (Some (fst (json_Unmarshal env (rd_data (resp_Body resp)) emptyResponse)), None))
       \<and> (Add_legacy k env client p = Some (out, evs) \<and> HttpDo req \<in> set evs \<longrightarrow>
            out = Return (Some (fst (json_Unmarshal env (rd_data (resp_Body resp)) emptyResponse)),
                          None))"
proof (intro conjI impI)
  assume "HttpDo req \<in> set (snd (Add env client p))"
  then show "fst (Add env client p) =
               (Some (fst (json_Unmarshal env (rd_data (resp_Body resp)) emptyResponse)), None)"
    using assms
    by (auto simp: Add_def httpClient_Do_def readIPFSResponse_def Let_def
             split: sum.splits option.splits prod.splits if_splits)
next
  assume "Add_legacy k env client p = Some (out, evs) \<and> HttpDo req \<in> set evs"
  then show "out = Return (Some (fst (json_Unmarshal env (rd_data (resp_Body resp)) emptyResponse)),
                           None)"
    using assms
    by (auto simp: Add_legacy_def httpClient_Do_def readIPFSResponse_def Let_def
             split: sum.splits option.splits prod.splits if_splits)
qed

theorem Add_decode_verdict_ignored_witness:
  "net_do (fixture\<lparr>net_do := garbled_reply\<rparr>) (test_request ''/tmp/test.txt'') =
     Inr \<lparr>resp_StatusCode = 200, resp_Body = \<lparr>rd_data = ''<html>'', rd_err = None\<rparr>\<rparr>
   \<and> json_Unmarshal (fixture\<lparr>net_do := garbled_reply\<rparr>) ''<html>'' emptyResponse =
       (emptyResponse, Some ''invalid character'')
   \<and> HttpDo (test_request ''/tmp/test.txt'')
       \<in> set (snd (Add (fixture\<lparr>net_do := garbled_reply\<rparr>) local_client ''/tmp/test.txt''))
   \<and> fst (Add (fixture\<lparr>net_do := garbled_reply\<rparr>) local_client ''/tmp/test.txt'') =
       (Some emptyResponse, None)
   \<and> net_do (fixture\<lparr>net_do := garbled_reply\<rparr>) (test_request ''test.txt'') =
     Inr \<lparr>resp_StatusCode = 200, resp_Body = \<lparr>rd_data = ''<html>'', rd_err = None\<rparr>\<rparr>
   \<and> Add_legacy 1 (fixture\<lparr>net_do := garbled_reply\<rparr>) local_client ''/tmp/test.txt'' =
       Some (Return (Some emptyResponse, None),
             [HttpDo (test_request ''test.txt''), BodyReadAll, BodyClose])"
proof -
  let ?env = "fixture\<lparr>net_do := garbled_reply\<rparr>"
  let ?resp = "\<lparr>resp_StatusCode = 200, resp_Body = \<lparr>rd_data = ''<html>'', rd_err = None\<rparr>\<rparr>"
  have n: "net_do ?env (test_request ''/tmp/test.txt'') = Inr ?resp"
    by (simp add: garbled_reply_def)
  have n': "net_do ?env (test_request ''test.txt'') = Inr ?resp"
    by (simp add: garbled_reply_def)
  have r: "rd_err (resp_Body ?resp) = None" by simp
  have j: "json_Unmarshal ?env ''<html>'' emptyResponse = (emptyResponse, Some ''invalid character'')"
    by (simp add: json_Unmarshal_def fixture_def)
  have s: "HttpDo (test_request ''/tmp/test.txt'') \<in> set (snd (Add ?env local_client ''/tmp/test.txt''))"
    by (simp add: run_defs)
  obtain out where
    run: "Add_legacy 1 ?env local_client ''/tmp/test.txt'' =
            Some (out, [HttpDo (test_request ''test.txt''), BodyReadAll, BodyClose])"
    by (simp add: run_defs)
  from Add_decode_verdict_ignored [OF n r, where client = local_client and p = "''/tmp/test.txt''"] s j
  have a: "fst (Add ?env local_client ''/tmp/test.txt'') = (Some emptyResponse, None)"
    by simp
  from Add_decode_verdict_ignored [OF n' r, where client = local_client and p = "''/tmp/test.txt''"
         and k = 1 and out = out
         and evs = "[HttpDo (test_request ''test.txt''), BodyReadAll, BodyClose]"] run j
  have "out = Return (Some emptyResponse, None)"
    by simp
  with run n n' j s a show ?thesis by simp
qed

text \<open>
  C5, as stated, fails for an identifier with which the request URL does not parse:
  \<^verbatim>\<open>http.NewRequest\<close> fails, \<^verbatim>\<open>Cat\<close> returns that error, and no request is issued at all. An
  identifier holding a line feed is one.
\<close>

theorem Cat_unparseable_url_no_request:
  "Cat fixture local_client (''Qm'' @ [CHR 0x0A]) =
     ((None, Some (InvalidURL ''invalid control character in URL'')), [])"
  by (simp add: run_defs)

text \<open>
  C5, amended: for every identifier \<open>ident\<close> with which the URL
  \<^verbatim>\<open>{base}/api/v0/cat?arg={ident}\<close> parses, \<^verbatim>\<open>Cat\<close> hands exactly one request to the HTTP
  client, a POST to that URL with no header set and no body, and does nothing else: the
  body of the response is neither read nor closed. When the exchange returns a response,
  whatever its status, \<^verbatim>\<open>Cat\<close> returns that very response with a nil error; when it returns
  an error, \<^verbatim>\<open>Cat\<close> returns that error. For every other identifier \<^verbatim>\<open>Cat\<close> returns the error
  of \<^verbatim>\<open>http.NewRequest\<close> and issues no request.
\<close>

theorem Cat_single_post_raw_response:
  "(url_parse env (url client @ ''/api/v0/cat?arg='' @ ident) = None \<longrightarrow>
      snd (Cat env client ident) =
        [HttpDo \<lparr>req_Method = ''POST'', req_URL = url client @ ''/api/v0/cat?arg='' @ ident,
                 req_Header = [], req_Body = None\<rparr>]
      \<and> (net_do env \<lparr>req_Method = ''POST'', req_URL = url client @ ''/api/v0/cat?arg='' @ ident,
                      req_Header = [], req_Body = None\<rparr> = Inr resp
           \<longrightarrow> fst (Cat env client ident) = (Some resp, None))
      \<and> (net_do env \<lparr>req_Method = ''POST'', req_URL = url client @ ''/api/v0/cat?arg='' @ ident,
                      req_Header = [], req_Body = None\<rparr> = Inl m
           \<longrightarrow> fst (Cat env client ident) = (None, Some (NetworkError m))))
   \<and> (url_parse env (url client @ ''/api/v0/cat?arg='' @ ident) = Some m' \<longrightarrow>
        Cat env client ident = ((None, Some (InvalidURL m')), []))"
  by (auto simp: Cat_def http_NewRequest_def httpClient_Do_def apiEndpoint_def apiPath_def
           split: sum.splits option.splits)

theorem Cat_single_post_raw_response_witness:
  "url_parse fixture (url local_client @ ''/api/v0/cat?arg='' @ ''QmRNXpcZH7UY'') = None
   \<and> net_do fixture \<lparr>req_Method = ''POST'',
                      req_URL = url local_client @ ''/api/v0/cat?arg='' @ ''QmRNXpcZH7UY'',
                      req_Header = [], req_Body = None\<rparr> =
       Inr \<lparr>resp_StatusCode = 500, resp_Body = \<lparr>rd_data = ''no link'', rd_err = None\<rparr>\<rparr>
   \<and> Cat fixture local_client ''QmRNXpcZH7UY'' =
       ((Some \<lparr>resp_StatusCode = 500, resp_Body = \<lparr>rd_data = ''no link'', rd_err = None\<rparr>\<rparr>, None),
        [HttpDo \<lparr>req_Method = ''POST'',
                 req_URL = ''http://127.0.0.1:5001/api/v0/cat?arg=QmRNXpcZH7UY'',
                 req_Header = [], req_Body = None\<rparr>])
   \<and> net_do (fixture\<lparr>net_do := \<lambda>r. Inl ''connection refused''\<rparr>)
        \<lparr>req_Method = ''POST'',
         req_URL = url local_client @ ''/api/v0/cat?arg='' @ ''QmRNXpcZH7UY'',
         req_Header = [], req_Body = None\<rparr> = Inl ''connection refused''
   \<and> fst (Cat (fixture\<lparr>net_do := \<lambda>r. Inl ''connection refused''\<rparr>) local_client ''QmRNXpcZH7UY'') =
       (None, Some (NetworkError ''connection refused''))
   \<and> url_parse fixture (url local_client @ ''/api/v0/cat?arg='' @ ''Qm'' @ [CHR 0x09]) =
       Some ''invalid control character in URL''
   \<and> Cat fixture local_client (''Qm'' @ [CHR 0x09]) =
       ((None, Some (InvalidURL ''invalid control character in URL'')), [])"
proof -
  let ?down = "fixture\<lparr>net_do := \<lambda>r. Inl ''connection refused''\<rparr>"
  let ?req = "\<lparr>req_Method = ''POST'',
                req_URL = url local_client @ ''/api/v0/cat?arg='' @ ''QmRNXpcZH7UY'',
                req_Header = [], req_Body = None\<rparr>"
  let ?resp = "\<lparr>resp_StatusCode = 500, resp_Body = \<lparr>rd_data = ''no link'', rd_err = None\<rparr>\<rparr>"
  have u: "url_parse fixture (url local_client @ ''/api/v0/cat?arg='' @ ''QmRNXpcZH7UY'') = None"
    by (simp add: fixture_def local_client_def)
  have u': "url_parse ?down (url local_client @ ''/api/v0/cat?arg='' @ ''QmRNXpcZH7UY'') = None"
    by (simp add: fixture_def local_client_def)
  have n: "net_do fixture ?req = Inr ?resp"
    by (simp add: fixture_def local_client_def)
  have n': "net_do ?down ?req = Inl ''connection refused''"
    by simp
  have b: "url_parse fixture (url local_client @ ''/api/v0/cat?arg='' @ ''Qm'' @ [CHR 0x09]) =
             Some ''invalid control character in URL''"
    by (simp add: fixture_def local_client_def)
  from Cat_single_post_raw_response [where env = fixture and client = local_client
         and ident = "''QmRNXpcZH7UY''" and resp = ?resp] u n
  have "snd (Cat fixture local_client ''QmRNXpcZH7UY'') = [HttpDo ?req]
        \<and> fst (Cat fixture local_client ''QmRNXpcZH7UY'') = (Some ?resp, None)"
    by blast
  then have c1: "Cat fixture local_client ''QmRNXpcZH7UY'' =
       ((Some ?resp, None),
        [HttpDo \<lparr>req_Method = ''POST'',
                 req_URL = ''http://127.0.0.1:5001/api/v0/cat?arg=QmRNXpcZH7UY'',
                 req_Header = [], req_Body = None\<rparr>])"
    by (simp add: prod_eq_iff local_client_def)
  from Cat_single_post_raw_response [where env = ?down and client = local_client
         and ident = "''QmRNXpcZH7UY''" and m = "''connection refused''"] u' n'
  have c2: "fst (Cat ?down local_client ''QmRNXpcZH7UY'') =
              (None, Some (NetworkError ''connection refused''))"
    by blast
  from Cat_single_post_raw_response [where env = fixture and client = local_client
         and ident = "''Qm'' @ [CHR 0x09]"
         and m' = "''invalid control character in URL''"] b
  have c3: "Cat fixture local_client (''Qm'' @ [CHR 0x09]) =
              ((None, Some (InvalidURL ''invalid control character in URL'')), [])"
    by blast
  from u n c1 n' c2 b c3 show ?thesis by simp
qed




text \<open>
  C7: for every path for which \<^verbatim>\<open>os.Stat\<close> fails, as it does for a path that does not
  exist, \<^verbatim>\<open>Add\<close> returns a nil result and the I/O error of \<^verbatim>\<open>os.Stat\<close>, and hands no
  request to the HTTP client. Both revisions behave so.
\<close>

theorem Add_missing_path_fails_without_request:
  assumes "fs_stat env pathName = Inl m"
  shows "Add env client pathName = ((None, Some (IOError m)), [])
       \<and> Add_legacy (Suc k) env client pathName = Some (Return (None, Some (IOError m)), [])"
  using assms by (simp add: Add_def Add_legacy_def os_Stat_def NewWriter_def)

theorem Add_missing_path_fails_without_request_witness:
  "fs_stat fixture ''/tmp/nothing'' = Inl ''no such file or directory''
   \<and> Add fixture local_client ''/tmp/nothing'' =
       ((None, Some (IOError ''no such file or directory'')), [])
   \<and> Add_legacy 1 fixture local_client ''/tmp/nothing'' =
       Some (Return (None, Some (IOError ''no such file or directory'')), [])"
proof -
  have h: "fs_stat fixture ''/tmp/nothing'' = Inl ''no such file or directory''"
    by (simp add: fixture_def)
  show ?thesis
    using h Add_missing_path_fails_without_request [OF h, of local_client 0] by simp
qed

text \<open>
  C8 holds in the revised client, where the header is built from \<^verbatim>\<open>writer.Boundary()\<close>, and
  fails in the first revision, where \<^verbatim>\<open>Add\<close> builds it from the string that
  \<^verbatim>\<open>createMultiPartBody\<close> returns: for an empty directory that string is empty, while the
  closing delimiter that \<^verbatim>\<open>writer.Close()\<close> writes to the body carries the writer's boundary.
\<close>

theorem legacy_Add_empty_directory_boundary_mismatch:
  "map header_boundary (legacy_sent 3 fixture local_client ''/tmp/empty'') = [Some []]
   \<and> map body_delimiters (legacy_sent 3 fixture local_client ''/tmp/empty'') = [[''5d41402abc4b'']]
   \<and> map header_boundary (sent_requests (snd (Add fixture local_client ''/tmp/empty''))) =
       [Some ''5d41402abc4b'']
   \<and> map body_delimiters (sent_requests (snd (Add fixture local_client ''/tmp/empty''))) = [[]]"
  by (simp add: run_defs eval_nat_numeral)

text \<open>
  C9: whenever the HTTP exchange of \<^verbatim>\<open>Add\<close> or \<^verbatim>\<open>AddBinary\<close> returns a response and
  reading its body fails, the call returns a nil result together with a nil error; and
  there are such executions, as the witness shows for a reply that breaks off.
\<close>

theorem Add_body_read_failure_nil_nil:
  assumes "net_do env req = Inr resp" and "rd_err (resp_Body resp) = Some e"
  shows "(HttpDo req \<in> set (snd (Add env client p)) \<longrightarrow>
            fst (Add env client p) = (None, None))
       \<and> (HttpDo req \<in> set (snd (AddBinary env client content fileName)) \<longrightarrow>
            fst (AddBinary env client content fileName) = (None, None))
       \<and> (Add_legacy k env client p = Some (out, evs) \<and> HttpDo req \<in> set evs \<longrightarrow>
            out = Return (None, None))"
proof (intro conjI impI)
  assume "HttpDo req \<in> set (snd (Add env client p))"
  then show "fst (Add env client p) = (None, None)"
    using assms
    by (auto simp: Add_def httpClient_Do_def readIPFSResponse_def Let_def
             split: sum.splits option.splits prod.splits if_splits)
next
  assume "HttpDo req \<in> set (snd (AddBinary env client content fileName))"
  then show "fst (AddBinary env client content fileName) = (None, None)"
    using assms
    by (auto simp: AddBinary_def httpClient_Do_def readIPFSResponse_def Let_def
             split: sum.splits option.splits prod.splits if_splits)
next
  assume "Add_legacy k env client p = Some (out, evs) \<and> HttpDo req \<in> set evs"
  then show "out = Return (None, None)"
    using assms
    by (auto simp: Add_legacy_def httpClient_Do_def readIPFSResponse_def Let_def
             split: sum.splits option.splits prod.splits if_splits)
qed

theorem Add_body_read_failure_nil_nil_witness:
  "net_do (fixture\<lparr>net_do := truncated_reply\<rparr>) (test_request ''/tmp/test.txt'') =
       Inr \<lparr>resp_StatusCode = 200,
            resp_Body = \<lparr>rd_data = ''rep'', rd_err = Some (NetworkError ''unexpected EOF'')\<rparr>\<rparr>
   \<and> Add (fixture\<lparr>net_do := truncated_reply\<rparr>) local_client ''/tmp/test.txt'' =
       ((None, None), [HttpDo (test_request ''/tmp/test.txt''), BodyReadAll, BodyClose])
   \<and> AddBinary (fixture\<lparr>net_do := truncated_reply\<rparr>) local_client
        \<lparr>rd_data = ''test for file'', rd_err = None\<rparr> ''test.txt'' =
       ((None, None), [HttpDo (test_request ''test.txt''), BodyReadAll, BodyClose])
   \<and> Add_legacy 1 (fixture\<lparr>net_do := truncated_reply\<rparr>) local_client ''/tmp/test.txt'' =
       Some (Return (None, None), [HttpDo (test_request ''test.txt''), BodyReadAll, BodyClose])"
proof -
  let ?env = "fixture\<lparr>net_do := truncated_reply\<rparr>"
  let ?resp = "\<lparr>resp_StatusCode = 200,
                 resp_Body = \<lparr>rd_data = ''rep'', rd_err = Some (NetworkError ''unexpected EOF'')\<rparr>\<rparr>"
  let ?content = "\<lparr>rd_data = ''test for file'', rd_err = None\<rparr>"
  have n: "net_do ?env (test_request ''/tmp/test.txt'') = Inr ?resp"
    by (simp add: truncated_reply_def)
  have n': "net_do ?env (test_request ''test.txt'') = Inr ?resp"
    by (simp add: truncated_reply_def)
  have r: "rd_err (resp_Body ?resp) = Some (NetworkError ''unexpected EOF'')" by simp
  have s1: "snd (Add ?env local_client ''/tmp/test.txt'') =
              [HttpDo (test_request ''/tmp/test.txt''), BodyReadAll, BodyClose]"
    by (simp add: run_defs)
  have s2: "snd (AddBinary ?env local_client ?content ''test.txt'') =
              [HttpDo (test_request ''test.txt''), BodyReadAll, BodyClose]"
    by (simp add: run_defs)
  obtain out where
    s3: "Add_legacy 1 ?env local_client ''/tmp/test.txt'' =
           Some (out, [HttpDo (test_request ''test.txt''), BodyReadAll, BodyClose])"
    by (simp add: run_defs)
  from Add_body_read_failure_nil_nil [OF n r, where client = local_client
         and p = "''/tmp/test.txt''"] s1
  have a: "fst (Add ?env local_client ''/tmp/test.txt'') = (None, None)" by simp
  from Add_body_read_failure_nil_nil [OF n' r, where client = local_client
         and content = ?content and fileName = "''test.txt''"] s2
  have b: "fst (AddBinary ?env local_client ?content ''test.txt'') = (None, None)" by simp
  from Add_body_read_failure_nil_nil [OF n' r, where client = local_client
         and p = "''/tmp/test.txt''" and k = 1 and out = out
         and evs = "[HttpDo (test_request ''test.txt''), BodyReadAll, BodyClose]"] s3
  have c: "out = Return (None, None)" by simp
  from n a b c s1 s2 s3 show ?thesis
    by (simp add: prod_eq_iff)
qed

text \<open>
  C10: whenever the HTTP exchange of \<^verbatim>\<open>Add\<close> or \<^verbatim>\<open>AddBinary\<close> returns a response, what the
  call does after sending the request is to read the body of the response and then close
  it, and closing it is the last thing it does before it returns. Both revisions of \<^verbatim>\<open>Add\<close>
  behave so.
\<close>

theorem Add_closes_response_body:
  assumes "net_do env req = Inr resp"
  shows "(HttpDo req \<in> set (snd (Add env client p)) \<longrightarrow>
            snd (Add env client p) = [HttpDo req, BodyReadAll, BodyClose])
       \<and> (HttpDo req \<in> set (snd (AddBinary env client content fileName)) \<longrightarrow>
            snd (AddBinary env client content fileName) = [HttpDo req, BodyReadAll, BodyClose])
       \<and> (Add_legacy k env client p = Some (out, evs) \<and> HttpDo req \<in> set evs \<longrightarrow>
            evs = [HttpDo req, BodyReadAll, BodyClose])"
proof (intro conjI impI)
  assume "HttpDo req \<in> set (snd (Add env client p))"
  then show "snd (Add env client p) = [HttpDo req, BodyReadAll, BodyClose]"
    using assms
    by (auto simp: Add_def httpClient_Do_def readIPFSResponse_def Let_def
             split: sum.splits option.splits prod.splits if_splits)
next
  assume "HttpDo req \<in> set (snd (AddBinary env client content fileName))"
  then show "snd (AddBinary env client content fileName) = [HttpDo req, BodyReadAll, BodyClose]"
    using assms
    by (auto simp: AddBinary_def httpClient_Do_def readIPFSResponse_def Let_def
             split: sum.splits option.splits prod.splits if_splits)
next
  assume "Add_legacy k env client p = Some (out, evs) \<and> HttpDo req \<in> set evs"
  then show "evs = [HttpDo req, BodyReadAll, BodyClose]"
    using assms
    by (auto simp: Add_legacy_def httpClient_Do_def readIPFSResponse_def Let_def
             split: sum.splits option.splits prod.splits if_splits)
qed

theorem Add_closes_response_body_witness:
  "net_do fixture (test_request ''/tmp/test.txt'') =
     Inr \<lparr>resp_StatusCode = 200, resp_Body = \<lparr>rd_data = ''reply'', rd_err = None\<rparr>\<rparr>
   \<and> HttpDo (test_request ''/tmp/test.txt'')
       \<in> set (snd (Add fixture local_client ''/tmp/test.txt''))
   \<and> snd (Add fixture local_client ''/tmp/test.txt'') =
       [HttpDo (test_request ''/tmp/test.txt''), BodyReadAll, BodyClose]
   \<and> net_do fixture (test_request ''test.txt'') =
     Inr \<lparr>resp_StatusCode = 200, resp_Body = \<lparr>rd_data = ''reply'', rd_err = None\<rparr>\<rparr>
   \<and> HttpDo (test_request ''test.txt'')
       \<in> set (snd (AddBinary fixture local_client
                      \<lparr>rd_data = ''test for file'', rd_err = None\<rparr> ''test.txt''))
   \<and> snd (AddBinary fixture local_client \<lparr>rd_data = ''test for file'', rd_err = None\<rparr> ''test.txt'') =
       [HttpDo (test_request ''test.txt''), BodyReadAll, BodyClose]
   \<and> Add_legacy 1 fixture local_client ''/tmp/test.txt'' =
       Some (Return (Some \<lparr>Name = ''test.txt'', Hash = ''QmHash'', Size = ''21''\<rparr>, None),
             [HttpDo (test_request ''test.txt''), BodyReadAll, BodyClose])"
proof -
  let ?resp = "\<lparr>resp_StatusCode = 200, resp_Body = \<lparr>rd_data = ''reply'', rd_err = None\<rparr>\<rparr>"
  let ?content = "\<lparr>rd_data = ''test for file'', rd_err = None\<rparr>"
  let ?out = "Return (Some \<lparr>Name = ''test.txt'', Hash = ''QmHash'', Size = ''21''\<rparr>, None)"
  have n: "net_do fixture (test_request ''/tmp/test.txt'') = Inr ?resp"
    by (simp add: fixture_def test_request_def)
  have n': "net_do fixture (test_request ''test.txt'') = Inr ?resp"
    by (simp add: fixture_def test_request_def)
  have m1: "HttpDo (test_request ''/tmp/test.txt'')
              \<in> set (snd (Add fixture local_client ''/tmp/test.txt''))"
    by (simp add: run_defs)
  have m2: "HttpDo (test_request ''test.txt'')
              \<in> set (snd (AddBinary fixture local_client ?content ''test.txt''))"
    by (simp add: run_defs)
  obtain evs where
    s3: "Add_legacy 1 fixture local_client ''/tmp/test.txt'' = Some (?out, evs)" and
    m3: "HttpDo (test_request ''test.txt'') \<in> set evs"
    by (simp add: run_defs)
  from Add_closes_response_body [OF n, where client = local_client
         and p = "''/tmp/test.txt''"] m1
  have a: "snd (Add fixture local_client ''/tmp/test.txt'') =
             [HttpDo (test_request ''/tmp/test.txt''), BodyReadAll, BodyClose]" by simp
  from Add_closes_response_body [OF n', where client = local_client
         and content = ?content and fileName = "''test.txt''"] m2
  have b: "snd (AddBinary fixture local_client ?content ''test.txt'') =
             [HttpDo (test_request ''test.txt''), BodyReadAll, BodyClose]" by simp
  from Add_closes_response_body [OF n', where client = local_client
         and p = "''/tmp/test.txt''" and k = 1 and out = ?out and evs = evs] s3 m3
  have c: "evs = [HttpDo (test_request ''test.txt''), BodyReadAll, BodyClose]" by simp
  from n n' m1 m2 a b c s3 show ?thesis by simp
qed

end
